theory Spec2Isabelle
  imports Main
begin

section \<open>Python values, errors and the external libraries\<close>

text \<open>
  The module \<^verbatim>\<open>transform_nmdc_data.py\<close> works on dynamically typed values: record cells,
  mapping specifications read from YAML, and the objects built from them. One datatype holds
  them all. \<open>PNaN\<close> is the float not-a-number (the null of a pandas column), \<open>PFloat\<close> holds
  every other float (the type of floats is a parameter), \<open>PDict\<close> is a \<^verbatim>\<open>dict\<close> in insertion
  order and \<open>PObj\<close> is an instance of a class of the \<^verbatim>\<open>nmdc\<close> module (a \<^verbatim>\<open>JsonObj\<close>, so it has
  \<^verbatim>\<open>_as_dict\<close>) with its \<^verbatim>\<open>__dict__\<close>. Strings are \<open>string\<close>.
\<close>

datatype 'f pyval =
    PNone
  | PNaN
  | PBool bool
  | PInt int
  | PFloat 'f
  | PStr string
  | PList "'f pyval list"
  | PDict "(string \<times> 'f pyval) list"
  | PObj string "(string \<times> 'f pyval) list"

datatype error =
    NameError string
  | KeyError string
  | AttributeError
  | TypeError
  | ValueError

text \<open>
  What the module takes from outside: the builtin \<^verbatim>\<open>eval\<close> (on the text of an expression),
  \<^verbatim>\<open>str\<close> on floats, containers and objects, \<^verbatim>\<open>float\<close> on a string (\<open>None\<close> when it raises
  \<^verbatim>\<open>ValueError\<close>, else a \<open>PFloat\<close> or \<open>PNaN\<close>), \<^verbatim>\<open>jsonasobj.as_dict\<close>, the classes of the
  \<^verbatim>\<open>nmdc\<close> module by name, each a constructor from keyword arguments, the truth value of the
  array that pandas and NumPy make of a list (\<open>array_truth\<close>, see \<open>notnull_truth\<close>), and what
  \<^verbatim>\<open>getattr\<close> finds on the class of a value when the value itself does not store the name
  (\<open>class_attr\<close>, by the name of the class and of the attribute: constants such as
  \<^verbatim>\<open>class_class_curie\<close>, and methods).
\<close>

record 'f externals =
  py_eval :: "string \<Rightarrow> error + 'f pyval"
  str_ext :: "'f pyval \<Rightarrow> string"
  py_float :: "string \<Rightarrow> 'f pyval option"
  as_dict :: "'f pyval \<Rightarrow> (string \<times> 'f pyval) list"
  nmdc :: "string \<Rightarrow> ((string \<times> 'f pyval) list \<Rightarrow> error + 'f pyval) option"
  array_truth :: "'f pyval list \<Rightarrow> error + bool"
  class_attr :: "string \<Rightarrow> string \<Rightarrow> 'f pyval option"

text \<open>\<^verbatim>\<open>pds.isnull\<close> on a scalar or an object: only \<^verbatim>\<open>None\<close> and NaN are null.\<close>

fun checknull :: "'f pyval \<Rightarrow> bool" where
  "checknull PNone = True"
| "checknull PNaN = True"
| "checknull _ = False"

section \<open>Value pruning: \<^verbatim>\<open>make_dict_from_nmdc_obj\<close>\<close>

function is_value :: "'f pyval \<Rightarrow> bool" where
  "is_value PNone = False"
| "is_value (PList xs) = (xs \<noteq> [])"
| "is_value (PStr s) = (s \<noteq> [])"
| "is_value (PDict kvs) =
     (if kvs = [] then False
      else (case map_of kvs ''id'' of
              Some i \<Rightarrow> is_value i
            | None \<Rightarrow> (case map_of kvs ''has_raw_value'' of
                         Some r \<Rightarrow> is_value r
                       | None \<Rightarrow> False)))"
| "is_value PNaN = False"
| "is_value (PBool b) = True"
| "is_value (PInt i) = True"
| "is_value (PFloat f) = True"
| "is_value (PObj c attrs) = True"
  by pat_completeness auto
termination
proof -
  have aux: "size v < Suc (size_list (size_prod (\<lambda>_. 0) size) kvs)"
    if "map_of kvs k = Some v" for kvs :: "(string \<times> 'f pyval) list" and k v
    using that by (induction kvs) (auto split: if_splits)
  show ?thesis
    by (relation "measure size") (auto dest: aux)
qed

definition prune_entry :: "'f pyval \<Rightarrow> 'f pyval" where
  "prune_entry v =
     (case v of
        PDict d \<Rightarrow> PDict (filter (\<lambda>kv. is_value (snd kv)) d)
      | PList l \<Rightarrow> PList (filter is_value l)
      | _ \<Rightarrow> v)"

definition make_dict :: "'f externals \<Rightarrow> 'f pyval \<Rightarrow> 'f pyval" where
  "make_dict E obj =
     (case obj of
        PNone \<Rightarrow> PNone
      | PObj c attrs \<Rightarrow>
          (let temp_dict = map (\<lambda>kv. (fst kv, prune_entry (snd kv))) (as_dict E obj)
           in PDict (filter (\<lambda>kv. is_value (snd kv)) temp_dict))
      | _ \<Rightarrow> obj)"

definition make_dict_from_nmdc_obj :: "'f externals \<Rightarrow> 'f pyval \<Rightarrow> 'f pyval" where
  "make_dict_from_nmdc_obj E nmdc_obj =
     (case nmdc_obj of
        PList os \<Rightarrow> PList (map (make_dict E) (filter is_value os))
      | _ \<Rightarrow> make_dict E nmdc_obj)"


section \<open>Strings\<close>

text \<open>
  \<^verbatim>\<open>str.strip()\<close> removes white space at both ends, \<^verbatim>\<open>str.split(sep)\<close> cuts at every
  occurrence of a non-empty separator, \<^verbatim>\<open>str.split(" ", 1)\<close> cuts at the first space only, and
  \<^verbatim>\<open>str.split(None)\<close> cuts at runs of white space. An empty separator raises \<^verbatim>\<open>ValueError\<close>.
\<close>

definition py_isspace :: "char \<Rightarrow> bool" where
  "py_isspace c = (c \<in> set [CHR '' '', CHR 0x09, CHR 0x0A, CHR 0x0B, CHR 0x0C, CHR 0x0D,
                              CHR 0x1C, CHR 0x1D, CHR 0x1E, CHR 0x1F, CHR 0x85, CHR 0xA0])"

definition strip :: "string \<Rightarrow> string" where
  "strip s = rev (dropWhile py_isspace (rev (dropWhile py_isspace s)))"

fun starts_with :: "string \<Rightarrow> string \<Rightarrow> bool" where
  "starts_with [] s = True"
| "starts_with (p # ps) [] = False"
| "starts_with (p # ps) (c # cs) = (p = c \<and> starts_with ps cs)"

function split_aux :: "string \<Rightarrow> string \<Rightarrow> string \<Rightarrow> string list" where
  "split_aux sep cur [] = [rev cur]"
| "split_aux sep cur (c # cs) =
     (if sep \<noteq> [] \<and> starts_with sep (c # cs)
      then rev cur # split_aux sep [] (drop (length sep) (c # cs))
      else split_aux sep (c # cur) cs)"
  by pat_completeness auto
termination
  by (relation "measure (\<lambda>(sep, cur, s). length s)") auto

fun split_ws :: "string \<Rightarrow> string \<Rightarrow> string list" where
  "split_ws cur [] = (if cur = [] then [] else [rev cur])"
| "split_ws cur (c # cs) =
     (if py_isspace c then (if cur = [] then split_ws [] cs else rev cur # split_ws [] cs)
      else split_ws (c # cur) cs)"

definition py_split :: "string \<Rightarrow> 'f pyval \<Rightarrow> error + string list" where
  "py_split s sep =
     (case sep of
        PStr d \<Rightarrow> (if d = [] then Inl ValueError else Inr (split_aux d [] s))
      | PNone \<Rightarrow> Inr (split_ws [] s)
      | _ \<Rightarrow> Inl TypeError)"

fun str_nat :: "nat \<Rightarrow> string" where
  "str_nat n = (if n < 10 then [''0123456789'' ! n]
                else str_nat (n div 10) @ [''0123456789'' ! (n mod 10)])"

declare str_nat.simps [simp del]

definition py_str :: "'f externals \<Rightarrow> 'f pyval \<Rightarrow> string" where
  "py_str E v =
     (case v of
        PNone \<Rightarrow> ''None''
      | PNaN \<Rightarrow> ''nan''
      | PBool b \<Rightarrow> (if b then ''True'' else ''False'')
      | PInt i \<Rightarrow> (if i < 0 then CHR ''-'' # str_nat (nat (- i)) else str_nat (nat i))
      | PStr s \<Rightarrow> s
      | _ \<Rightarrow> str_ext E v)"

text \<open>
  The truth value of \<^verbatim>\<open>pds.notnull(v)\<close> in an \<^verbatim>\<open>if\<close>. For a list pandas answers with an array.
  A list of two or more scalars gives an array of as many elements, and the truth value of
  such an array is an error. For every other list (empty, of one element, holding
  containers) the shape of the array and the truth value of an empty array depend on the
  libraries and their versions: \<open>array_truth\<close> stands for it.
\<close>

definition plain_scalar :: "'f pyval \<Rightarrow> bool" where
  "plain_scalar v =
     (case v of PList l \<Rightarrow> False | PDict d \<Rightarrow> False | PObj c a \<Rightarrow> False | _ \<Rightarrow> True)"

definition notnull_truth :: "'f externals \<Rightarrow> 'f pyval \<Rightarrow> error + bool" where
  "notnull_truth E v =
     (case v of
        PList xs \<Rightarrow>
          (if 2 \<le> length xs \<and> list_all plain_scalar xs then Inl ValueError
           else array_truth E xs)
      | _ \<Rightarrow> Inr (\<not> checknull v))"

section \<open>Field resolution\<close>

type_synonym 'f nmdc_record = "(string \<times> 'f pyval) list"

text \<open>
  A record is a named tuple: its \<^verbatim>\<open>_fields\<close> are the keys of the association list, and
  \<^verbatim>\<open>pds.isnull\<close> of a tuple is false. A dictionary lookup \<^verbatim>\<open>d[k]\<close> raises \<^verbatim>\<open>KeyError\<close> when the
  key is missing.
\<close>

definition has_key :: "string \<Rightarrow> (string \<times> 'a) list \<Rightarrow> bool" where
  "has_key k d = (k \<in> set (map fst d))"

definition dict_get :: "(string \<times> 'a) list \<Rightarrow> string \<Rightarrow> error + 'a" where
  "dict_get d k = (case map_of d k of Some v \<Rightarrow> Inr v | None \<Rightarrow> Inl (KeyError k))"

definition record_has_field :: "'f nmdc_record \<Rightarrow> 'f pyval \<Rightarrow> error + bool" where
  "record_has_field nmdc_record attribute_field =
     (case attribute_field of
        PStr s \<Rightarrow>
          Inr ((if CHR '','' \<in> set s then strip (hd (split_aux '','' [] s)) else strip s)
               \<in> set (map fst nmdc_record))
      | PDict d \<Rightarrow> Inl AttributeError
      | PList l \<Rightarrow> Inl AttributeError
      | _ \<Rightarrow> Inl TypeError)"

definition coerce_value :: "'f externals \<Rightarrow> 'f pyval \<Rightarrow> string \<Rightarrow> error + 'f pyval" where
  "coerce_value E v dtype =
     (if v = PNone then Inr PNone
      else if dtype \<noteq> ''str'' then py_eval E (dtype @ ''('' @ py_str E v @ '')'')
      else Inr (PStr (py_str E v)))"

function get_dtype_from_attribute_field :: "'f pyval \<Rightarrow> error + string" where
  "get_dtype_from_attribute_field (PDict d) =
     (case map_of d ''$const'' of
        Some c \<Rightarrow> get_dtype_from_attribute_field c
      | None \<Rightarrow> Inr ''str'')"
| "get_dtype_from_attribute_field (PStr s) =
     (if CHR '','' \<in> set s then Inr (strip (split_aux '','' [] s ! 1)) else Inr ''str'')"
| "get_dtype_from_attribute_field (PList l) =
     (if PStr '','' \<in> set l then Inl AttributeError else Inr ''str'')"
| "get_dtype_from_attribute_field PNone = Inl TypeError"
| "get_dtype_from_attribute_field PNaN = Inl TypeError"
| "get_dtype_from_attribute_field (PBool b) = Inl TypeError"
| "get_dtype_from_attribute_field (PInt i) = Inl TypeError"
| "get_dtype_from_attribute_field (PFloat f) = Inl TypeError"
| "get_dtype_from_attribute_field (PObj c a) = Inl TypeError"
  by pat_completeness auto
termination
proof -
  have aux: "size v < Suc (size_list (size_prod (\<lambda>_. 0) size) kvs)"
    if "map_of kvs k = Some v" for kvs :: "(string \<times> 'f pyval) list" and k v
    using that by (induction kvs) (auto split: if_splits)
  show ?thesis
    by (relation "measure size") (auto dest: aux)
qed

function get_field_and_dtype_from_attribute_field :: "'f pyval \<Rightarrow> error + ('f pyval \<times> string)" where
  "get_field_and_dtype_from_attribute_field (PDict d) =
     (case map_of d ''$const'' of
        Some c \<Rightarrow> get_field_and_dtype_from_attribute_field c
      | None \<Rightarrow>
          (case map_of d ''$field'' of
             Some f \<Rightarrow> get_field_and_dtype_from_attribute_field f
           | None \<Rightarrow> Inr (PDict d, ''str'')))"
| "get_field_and_dtype_from_attribute_field (PStr s) =
     (if CHR '','' \<in> set s
      then (case split_aux '','' [] s of
              [field, dtype] \<Rightarrow> Inr (PStr (strip field), strip dtype)
            | _ \<Rightarrow> Inl ValueError)
      else Inr (PStr (strip s), ''str''))"
| "get_field_and_dtype_from_attribute_field (PList l) = Inl AttributeError"
| "get_field_and_dtype_from_attribute_field PNone = Inl TypeError"
| "get_field_and_dtype_from_attribute_field PNaN = Inl TypeError"
| "get_field_and_dtype_from_attribute_field (PBool b) = Inl TypeError"
| "get_field_and_dtype_from_attribute_field (PInt i) = Inl TypeError"
| "get_field_and_dtype_from_attribute_field (PFloat f) = Inl TypeError"
| "get_field_and_dtype_from_attribute_field (PObj c a) = Inl TypeError"
  by pat_completeness auto
termination
proof -
  have aux: "size v < Suc (size_list (size_prod (\<lambda>_. 0) size) kvs)"
    if "map_of kvs k = Some v" for kvs :: "(string \<times> 'f pyval) list" and k v
    using that by (induction kvs) (auto split: if_splits)
  show ?thesis
    by (relation "measure size") (auto dest: aux)
qed

definition getattr_record :: "'f nmdc_record \<Rightarrow> 'f pyval \<Rightarrow> error + 'f pyval" where
  "getattr_record nmdc_record field =
     (case field of
        PStr f \<Rightarrow> (case map_of nmdc_record f of Some v \<Rightarrow> Inr v | None \<Rightarrow> Inl AttributeError)
      | _ \<Rightarrow> Inl TypeError)"

definition get_record_attr ::
  "'f externals \<Rightarrow> 'f nmdc_record \<Rightarrow> 'f pyval \<Rightarrow> bool \<Rightarrow> error + 'f pyval" where
  "get_record_attr E nmdc_record attribute_field return_field_if_none =
     (case (case attribute_field of PDict d \<Rightarrow> map_of d ''$const'' | _ \<Rightarrow> None) of
        Some c \<Rightarrow>
          (case get_field_and_dtype_from_attribute_field c of
             Inl e \<Rightarrow> Inl e
           | Inr (field, dtype) \<Rightarrow> coerce_value E field dtype)
      | None \<Rightarrow>
          (case get_field_and_dtype_from_attribute_field attribute_field of
             Inl e \<Rightarrow> Inl e
           | Inr (field, dtype) \<Rightarrow>
               (case record_has_field nmdc_record field of
                  Inl e \<Rightarrow> Inl e
                | Inr present \<Rightarrow>
                    (case (if present then getattr_record nmdc_record field
                           else Inr (if return_field_if_none then field else PNone)) of
                       Inl e \<Rightarrow> Inl e
                     | Inr val \<Rightarrow>
                         (case notnull_truth E val of
                            Inl e \<Rightarrow> Inl e
                          | Inr nn \<Rightarrow> if nn then coerce_value E val dtype else Inr PNone)))))"


section \<open>The list builder\<close>

fun map_err :: "('a \<Rightarrow> error + 'b) \<Rightarrow> 'a list \<Rightarrow> error + 'b list" where
  "map_err f [] = Inr []"
| "map_err f (x # xs) =
     (case f x of
        Inl e \<Rightarrow> Inl e
      | Inr y \<Rightarrow> (case map_err f xs of Inl e \<Rightarrow> Inl e | Inr ys \<Rightarrow> Inr (y # ys)))"

definition dict_del :: "string \<Rightarrow> (string \<times> 'a) list \<Rightarrow> (string \<times> 'a) list" where
  "dict_del k d = filter (\<lambda>kv. fst kv \<noteq> k) d"

text \<open>
  \<^verbatim>\<open>make_nmdc_class\<close> looks a class name up in the \<^verbatim>\<open>nmdc\<close> module and leaves any other value
  as it is: \<^verbatim>\<open>None\<close> stays \<^verbatim>\<open>None\<close>, and a value that is no class cannot be called.
\<close>

datatype 'f class_ref =
    ClassNone
  | ClassValue "'f pyval"
  | Class "(string \<times> 'f pyval) list \<Rightarrow> error + 'f pyval"

definition make_nmdc_class :: "'f externals \<Rightarrow> 'f pyval \<Rightarrow> error + 'f class_ref" where
  "make_nmdc_class E class_type =
     (case class_type of
        PStr n \<Rightarrow> (case nmdc E n of Some c \<Rightarrow> Inr (Class c) | None \<Rightarrow> Inl AttributeError)
      | PNone \<Rightarrow> Inr ClassNone
      | _ \<Rightarrow> Inr (ClassValue class_type))"

text \<open>
  \<^verbatim>\<open>itertools.zip_longest\<close> with the default fill value \<^verbatim>\<open>None\<close>: as many rows as the longest
  argument has elements, the shorter ones padded.
\<close>

type_synonym 'f zipper = "'f pyval list list \<Rightarrow> 'f pyval list list"

definition itertools_zip_longest :: "'f zipper" where
  "itertools_zip_longest xss =
     map (\<lambda>i. map (\<lambda>xs. if i < length xs then xs ! i else PNone) xss)
         [0 ..< foldr max (map length xss) 0]"

text \<open>
  The module calls \<^verbatim>\<open>zip_longest\<close> as a global name. Its import statements are
  \<^verbatim>\<open>os, sys, git_root, datetime.datetime, pandas, jsonasobj, json, jq, io, pkgutil, zipfile, yaml,
  yaml.CLoader, yaml.CDumper, dotted_dict.DottedDict, collections.namedtuple, nmdc_dataframes,
  nmdc_schema.nmdc\<close>: none binds \<^verbatim>\<open>zip_longest\<close>, and no statement of the module assigns it.
  The functions below take the binding of that name as the argument \<open>zl\<close>;
  \<open>module_zip_longest\<close> is the binding in the module as it is written.
\<close>

definition module_zip_longest :: "'f zipper option" where
  "module_zip_longest = None"

definition pop_split_val ::
  "(string \<times> 'f pyval) list \<Rightarrow> error + ('f pyval \<times> (string \<times> 'f pyval) list)" where
  "pop_split_val item =
     (if has_key ''$spit_val'' item
      then (case map_of item ''$split_val'' of
              Some v \<Rightarrow> Inr (v, dict_del ''$split_val'' item)
            | None \<Rightarrow> Inl (KeyError ''$split_val''))
      else Inr (PStr '','', item))"

definition split_record_value ::
  "'f externals \<Rightarrow> 'f nmdc_record \<Rightarrow> 'f pyval \<Rightarrow> 'f pyval \<Rightarrow> error + 'f pyval list" where
  "split_record_value E nmdc_record split_val field_name =
     (case get_record_attr E nmdc_record field_name False of
        Inl e \<Rightarrow> Inl e
      | Inr val \<Rightarrow>
          if val \<noteq> PNone
          then (case get_dtype_from_attribute_field field_name of
                  Inl e \<Rightarrow> Inl e
                | Inr dtype \<Rightarrow>
                    (let mysplit =
                           (case field_name of
                              PDict d \<Rightarrow> (case map_of d ''$split_val'' of
                                            Some s \<Rightarrow> s
                                          | None \<Rightarrow> split_val)
                            | _ \<Rightarrow> split_val)
                     in case py_split (py_str E val) mysplit of
                          Inl e \<Rightarrow> Inl e
                        | Inr pieces \<Rightarrow>
                            map_err (\<lambda>v. coerce_value E (PStr (strip v)) dtype) pieces))
          else Inr [PNone])"

definition build_list_object ::
  "'f class_ref \<Rightarrow> string list \<Rightarrow> 'f pyval list \<Rightarrow> error + 'f pyval" where
  "build_list_object class_type keys rv =
     (let obj_dict = zip keys rv
      in case class_type of
           ClassNone \<Rightarrow> Inr (PDict obj_dict)
         | Class c \<Rightarrow> c obj_dict
         | ClassValue v \<Rightarrow> Inl TypeError)"

text \<open>
  \<^verbatim>\<open>make_object_from_list_item_dict\<close> pops keys from \<^verbatim>\<open>item\<close>, which is the dictionary of the
  mapping specification itself: the function returns the item as it leaves it, next to its
  result.
\<close>

definition make_object_from_list_item_dict ::
  "'f zipper option \<Rightarrow> 'f externals \<Rightarrow> 'f nmdc_record \<Rightarrow> (string \<times> 'f pyval) list
   \<Rightarrow> (string \<times> 'f pyval) list \<times> (error + 'f pyval list)" where
  "make_object_from_list_item_dict zl E nmdc_record item =
     (case pop_split_val item of
        Inl e \<Rightarrow> (item, Inl e)
      | Inr (split_val, item1) \<Rightarrow>
          (let item2 = (if has_key ''$class_type'' item1 then dict_del ''$class_type'' item1
                        else item1)
           in (item2,
               case (case map_of item1 ''$class_type'' of
                       Some ct \<Rightarrow> make_nmdc_class E ct
                     | None \<Rightarrow> Inr ClassNone) of
                 Inl e \<Rightarrow> Inl e
               | Inr class_type \<Rightarrow>
                   (case map_err (split_record_value E nmdc_record split_val) (map snd item2) of
                      Inl e \<Rightarrow> Inl e
                    | Inr record_values \<Rightarrow>
                        (let keys = filter (\<lambda>key. key \<noteq> ''$class_type'') (map fst item2)
                         in case zl of
                              None \<Rightarrow> Inl (NameError ''zip_longest'')
                            | Some zip_longest \<Rightarrow>
                                map_err (build_list_object class_type keys)
                                        (zip_longest record_values))))))"

definition make_value_from_list_item_dict ::
  "'f externals \<Rightarrow> 'f nmdc_record \<Rightarrow> (string \<times> 'f pyval) list \<Rightarrow> error + 'f pyval list" where
  "make_value_from_list_item_dict E nmdc_record item =
     (case dict_get item ''$field'' of
        Inl e \<Rightarrow> Inl e
      | Inr fld \<Rightarrow>
          (case get_dtype_from_attribute_field fld of
             Inl e \<Rightarrow> Inl e
           | Inr dtype \<Rightarrow>
               (let split_val = (case map_of item ''$split_val'' of
                                   Some s \<Rightarrow> s
                                 | None \<Rightarrow> PStr '','')
                in case map_of item ''$const'' of
                     Some c \<Rightarrow>
                       (case coerce_value E c dtype of Inl e \<Rightarrow> Inl e | Inr v \<Rightarrow> Inr [v])
                   | None \<Rightarrow>
                       (case get_record_attr E nmdc_record fld False of
                          Inl e \<Rightarrow> Inl e
                        | Inr record_val \<Rightarrow>
                            if record_val \<noteq> PNone
                            then (if split_val \<noteq> PNone
                                  then (case py_split (py_str E record_val) split_val of
                                          Inl e \<Rightarrow> Inl e
                                        | Inr pieces \<Rightarrow>
                                            map_err (\<lambda>rv. coerce_value E (PStr (strip rv)) dtype)
                                                    pieces)
                                  else (case record_val of
                                          PStr s \<Rightarrow>
                                            (case coerce_value E (PStr (strip s)) dtype of
                                               Inl e \<Rightarrow> Inl e
                                             | Inr v \<Rightarrow> Inr [v])
                                        | _ \<Rightarrow> Inl AttributeError))
                            else Inr [PNone]))))"

definition list_element ::
  "'f zipper option \<Rightarrow> 'f externals \<Rightarrow> 'f nmdc_record \<Rightarrow> 'f pyval
   \<Rightarrow> 'f pyval \<times> (error + 'f pyval list)" where
  "list_element zl E nmdc_record val =
     (case val of
        PDict d \<Rightarrow>
          (if has_key ''$field'' d then (val, make_value_from_list_item_dict E nmdc_record d)
           else (case make_object_from_list_item_dict zl E nmdc_record d of
                   (d', r) \<Rightarrow> (PDict d', r)))
      | _ \<Rightarrow>
          (val,
           case get_dtype_from_attribute_field val of
             Inl e \<Rightarrow> Inl e
           | Inr dtype \<Rightarrow>
               (case get_record_attr E nmdc_record val True of
                  Inl e \<Rightarrow> Inl e
                | Inr record_val \<Rightarrow>
                    if record_val \<noteq> PNone
                    then map_err (\<lambda>rv. coerce_value E (PStr (strip rv)) dtype)
                                 (split_aux '','' [] (py_str E record_val))
                    else Inr [PNone])))"

text \<open>
  \<^verbatim>\<open>make_object_from_list\<close> walks the list specification; an exception stops the walk and
  leaves the elements after it untouched.
\<close>

fun make_object_from_list ::
  "'f zipper option \<Rightarrow> 'f externals \<Rightarrow> 'f nmdc_record \<Rightarrow> 'f pyval list
   \<Rightarrow> 'f pyval list \<times> (error + 'f pyval list)" where
  "make_object_from_list zl E nmdc_record [] = ([], Inr [])"
| "make_object_from_list zl E nmdc_record (val # rest) =
     (case list_element zl E nmdc_record val of
        (val', Inl e) \<Rightarrow> (val' # rest, Inl e)
      | (val', Inr xs) \<Rightarrow>
          (case make_object_from_list zl E nmdc_record rest of
             (rest', Inl e) \<Rightarrow> (val' # rest', Inl e)
           | (rest', Inr ys) \<Rightarrow> (val' # rest', Inr (xs @ ys))))"


section \<open>Post-transform hooks\<close>

text \<open>
  The hooks work on the built objects and print to standard output; the printed lines are
  returned next to the result. \<^verbatim>\<open>getattr\<close> finds an attribute in the \<^verbatim>\<open>__dict__\<close> of an object
  and, when it is not there, on the class of the value; \<^verbatim>\<open>hasattr\<close> says whether
  \<^verbatim>\<open>getattr\<close> finds it. \<^verbatim>\<open>setattr\<close> stores into the \<^verbatim>\<open>__dict__\<close> of an object and raises on
  every other value.
\<close>

datatype 'f log_line =
    Executing "string list"
  | ParseFailure "'f pyval" string

definition py_type_name :: "'f pyval \<Rightarrow> string" where
  "py_type_name v =
     (case v of
        PNone \<Rightarrow> ''NoneType''
      | PNaN \<Rightarrow> ''float''
      | PBool b \<Rightarrow> ''bool''
      | PInt i \<Rightarrow> ''int''
      | PFloat f \<Rightarrow> ''float''
      | PStr s \<Rightarrow> ''str''
      | PList l \<Rightarrow> ''list''
      | PDict d \<Rightarrow> ''dict''
      | PObj c attrs \<Rightarrow> c)"

definition py_getattr :: "'f externals \<Rightarrow> 'f pyval \<Rightarrow> string \<Rightarrow> error + 'f pyval" where
  "py_getattr E obj name =
     (case (case obj of PObj c attrs \<Rightarrow> map_of attrs name | _ \<Rightarrow> None) of
        Some v \<Rightarrow> Inr v
      | None \<Rightarrow>
          (case class_attr E (py_type_name obj) name of
             Some v \<Rightarrow> Inr v
           | None \<Rightarrow> Inl AttributeError))"




definition get_member :: "'f pyval \<Rightarrow> string \<Rightarrow> 'f pyval option" where
  "get_member target k =
     (case target of PDict d \<Rightarrow> map_of d k | PObj c attrs \<Rightarrow> map_of attrs k | _ \<Rightarrow> None)"







subsection \<open>Dates\<close>















section \<open>The attribute crosswalk\<close>

text \<open>
  A row of the SSSOM table. The table read from a path (\<^verbatim>\<open>nmdc_dataframes.make_dataframe\<close>)
  and the table packaged with \<^verbatim>\<open>nmdc_schema\<close> are arguments; the dictionary comprehension
  lets a later row replace an earlier one with the same subject.
\<close>

record 'f sssom_row =
  subject_label :: "'f pyval"
  object_label :: "'f pyval"
  predicate_id :: "'f pyval"

definition make_attribute_map ::
  "(string \<Rightarrow> 'f sssom_row list) \<Rightarrow> 'f sssom_row list \<Rightarrow> string \<Rightarrow> ('f pyval \<rightharpoonup> 'f pyval)" where
  "make_attribute_map make_dataframe packaged sssom_map_file =
     (let mapping_df =
            (if length sssom_map_file > 0
             then filter (\<lambda>r. predicate_id r = PStr ''skos:exactMatch'')
                         (make_dataframe sssom_map_file)
             else packaged)
      in foldl (\<lambda>attr_map r. attr_map(subject_label r \<mapsto> object_label r)) Map.empty mapping_df)"

section \<open>The driver after the objects are built\<close>

text \<open>
  \<^verbatim>\<open>dataframe_to_dict\<close>, from the list of built objects on: dictionaries without \<^verbatim>\<open>id\<close> and
  without \<^verbatim>\<open>has_raw_value\<close> are set to \<^verbatim>\<open>None\<close>, the post-transform hooks run in their order,
  and every object is pruned. A hook is the function its name evaluates to.
\<close>

definition clear_untagged :: "(string \<times> 'f pyval) list \<Rightarrow> (string \<times> 'f pyval) list" where
  "clear_untagged attrs =
     map (\<lambda>kv. case snd kv of
                 PDict d \<Rightarrow>
                   if \<not> has_key ''id'' d \<and> \<not> has_key ''has_raw_value'' d then (fst kv, PNone)
                   else kv
               | _ \<Rightarrow> kv) attrs"

definition clear_untagged_obj :: "'f pyval \<Rightarrow> error + 'f pyval" where
  "clear_untagged_obj obj =
     (case obj of
        PObj c attrs \<Rightarrow> Inr (PObj c (clear_untagged attrs))
      | _ \<Rightarrow> Inl AttributeError)"

type_synonym 'f post_transform =
  "'f pyval list \<Rightarrow> string list \<Rightarrow> 'f log_line list \<times> (error + 'f pyval list)"

fun run_post_transforms ::
  "('f post_transform \<times> string list) list \<Rightarrow> 'f pyval list
   \<Rightarrow> 'f log_line list \<times> (error + 'f pyval list)" where
  "run_post_transforms [] nmdc_objs = ([], Inr nmdc_objs)"
| "run_post_transforms ((tx_function, tx_attributes) # rest) nmdc_objs =
     (case tx_function nmdc_objs tx_attributes of
        (out, Inl e) \<Rightarrow> (out, Inl e)
      | (out, Inr objs') \<Rightarrow>
          (case run_post_transforms rest objs' of (out', r) \<Rightarrow> (out @ out', r)))"

definition dataframe_to_dict_built ::
  "'f externals \<Rightarrow> ('f post_transform \<times> string list) list \<Rightarrow> 'f pyval list
   \<Rightarrow> 'f log_line list \<times> (error + 'f pyval list)" where
  "dataframe_to_dict_built E post_transforms nmdc_objs =
     (case map_err clear_untagged_obj nmdc_objs of
        Inl e \<Rightarrow> ([], Inl e)
      | Inr objs \<Rightarrow>
          (case run_post_transforms post_transforms objs of
             (out, Inl e) \<Rightarrow> (out, Inl e)
           | (out, Inr objs') \<Rightarrow> (out, Inr (map (make_dict_from_nmdc_obj E) objs'))))"

section \<open>Invariants and concrete inputs\<close>

text \<open>
  The objects the driver hands to the post-transform hooks are instances of the target class;
  \<open>tagged_dicts\<close> says that every dictionary among the attributes of such an object has an
  \<^verbatim>\<open>id\<close> or a \<^verbatim>\<open>has_raw_value\<close> key.
\<close>

definition is_obj :: "'f pyval \<Rightarrow> bool" where
  "is_obj v = (case v of PObj c attrs \<Rightarrow> True | _ \<Rightarrow> False)"

definition tagged_dicts :: "'f pyval \<Rightarrow> bool" where
  "tagged_dicts obj =
     (case obj of
        PObj c attrs \<Rightarrow>
          list_all (\<lambda>kv. case snd kv of
                            PDict d \<Rightarrow> has_key ''id'' d \<or> has_key ''has_raw_value'' d
                          | _ \<Rightarrow> True) attrs
      | _ \<Rightarrow> False)"

text \<open>
  Concrete libraries for the examples: \<^verbatim>\<open>as_dict\<close> turns an object, and the objects among its
  attributes and inside its lists, into dictionaries; \<^verbatim>\<open>float\<close> knows the literal \<^verbatim>\<open>5.2\<close> (as
  52 times ten to the power -1); the \<^verbatim>\<open>nmdc\<close> module has the class \<^verbatim>\<open>Study\<close>, which keeps its
  keyword arguments; \<^verbatim>\<open>eval\<close> knows no name; the string of a list starts with a bracket; the
  truth value of an array is an error; every class has the constant \<^verbatim>\<open>class_class_curie\<close>.
\<close>

fun obj_to_dict :: "'f pyval \<Rightarrow> 'f pyval" where
  "obj_to_dict (PObj c attrs) = PDict (map (map_prod id obj_to_dict) attrs)"
| "obj_to_dict (PList l) = PList (map obj_to_dict l)"
| "obj_to_dict v = v"

definition jsonasobj_as_dict :: "'f pyval \<Rightarrow> (string \<times> 'f pyval) list" where
  "jsonasobj_as_dict obj = (case obj_to_dict obj of PDict d \<Rightarrow> d | _ \<Rightarrow> [])"

definition example_externals :: "(int \<times> int) externals" where
  "example_externals =
     \<lparr> py_eval = (\<lambda>src. Inl (NameError src)),
       str_ext = (\<lambda>v. ''[...]''),
       py_float = (\<lambda>s. if s = ''5.2'' then Some (PFloat (52, -1)) else None),
       as_dict = jsonasobj_as_dict,
       nmdc = (\<lambda>n. if n = ''Study'' then Some (\<lambda>kwargs. Inr (PObj ''Study'' kwargs))
                    else None),
       array_truth = (\<lambda>xs. Inl ValueError),
       class_attr = (\<lambda>c n. if n = ''class_class_curie'' then Some (PStr (''nmdc:'' @ c))
                           else None) \<rparr>"

definition ab_row :: "(int \<times> int) nmdc_record" where
  "ab_row = [(''A'', PStr ''a,b''), (''B'', PStr ''x,y'')]"

definition abc_row :: "(int \<times> int) nmdc_record" where
  "abc_row = [(''A'', PStr ''a,b,c''), (''B'', PStr ''x'')]"

definition pipe_row :: "(int \<times> int) nmdc_record" where
  "pipe_row = [(''A'', PStr ''a|b''), (''B'', PStr ''x|y'')]"

definition sssom_close :: "(int \<times> int) sssom_row" where
  "sssom_close = \<lparr> subject_label = PStr ''depth'', object_label = PStr ''depth'',
                   predicate_id = PStr ''skos:closeMatch'' \<rparr>"




definition attr_view :: "'f externals \<Rightarrow> 'f pyval \<Rightarrow> string \<Rightarrow> 'f pyval option" where
  "attr_view E obj name = (case py_getattr E obj name of Inr v \<Rightarrow> Some v | Inl e \<Rightarrow> None)"















section \<open>Auxiliary facts\<close>

lemma is_value_PDict:
  "is_value (PDict d) =
     (case map_of d ''id'' of
        Some i \<Rightarrow> is_value i
      | None \<Rightarrow> (case map_of d ''has_raw_value'' of Some r \<Rightarrow> is_value r | None \<Rightarrow> False))"
  by (cases d) (auto split: option.splits)

lemma map_of_filter_snd:
  "distinct (map fst d) \<Longrightarrow>
   map_of (filter (\<lambda>kv. P (snd kv)) d) k =
     (case map_of d k of Some v \<Rightarrow> if P v then Some v else None | None \<Rightarrow> None)"
  by (induction d) (auto split: option.splits simp: map_of_eq_None_iff image_iff)

lemma map_of_map_snd:
  "map_of (map (\<lambda>kv. (fst kv, f (snd kv))) d) k = map_option f (map_of d k)"
  by (induction d) auto

lemma is_value_filtered:
  assumes "distinct (map fst d)"
  shows "is_value (PDict (filter (\<lambda>kv. is_value (snd kv)) d)) =
           ((\<exists>i. map_of d ''id'' = Some i \<and> is_value i) \<or>
            (\<exists>r. map_of d ''has_raw_value'' = Some r \<and> is_value r))"
  unfolding is_value_PDict map_of_filter_snd [OF assms]
  by (auto split: option.splits)

text \<open>
  A mapping that is the value of an attribute loses its entries without a value and is then
  tested: it is kept exactly when it has an \<^verbatim>\<open>id\<close> with a value or a \<^verbatim>\<open>has_raw_value\<close> with a
  value. The elements of a list attribute are tested as they are.
\<close>

lemma attribute_mapping_kept:
  assumes "distinct (map fst (as_dict E (PObj c a)))"
      and "map_of (as_dict E (PObj c a)) k = Some (PDict d)"
      and "distinct (map fst d)"
  shows "get_member (make_dict E (PObj c a)) k =
           (if (\<exists>i. map_of d ''id'' = Some i \<and> is_value i) \<or>
               (\<exists>r. map_of d ''has_raw_value'' = Some r \<and> is_value r)
            then Some (PDict (filter (\<lambda>kv. is_value (snd kv)) d)) else None)"
proof -
  let ?t = "map (\<lambda>kv. (fst kv, prune_entry (snd kv))) (as_dict E (PObj c a))"
  have dt: "distinct (map fst ?t)"
    using assms(1) by (simp add: o_def)
  have "get_member (make_dict E (PObj c a)) k = map_of (filter (\<lambda>kv. is_value (snd kv)) ?t) k"
    by (simp add: make_dict_def get_member_def Let_def)
  also have "\<dots> = (case map_of ?t k of
                      Some v \<Rightarrow> if is_value v then Some v else None
                    | None \<Rightarrow> None)"
    by (rule map_of_filter_snd [OF dt])
  also have "map_of ?t k = Some (PDict (filter (\<lambda>kv. is_value (snd kv)) d))"
    by (simp add: map_of_map_snd assms(2), simp add: prune_entry_def)
  finally show ?thesis
    using is_value_filtered [OF assms(3)] by simp
qed

lemma list_attribute_elements:
  assumes "distinct (map fst (as_dict E (PObj c a)))"
      and "map_of (as_dict E (PObj c a)) k = Some (PList l)"
  shows "get_member (make_dict E (PObj c a)) k =
           (if filter is_value l = [] then None else Some (PList (filter is_value l)))"
proof -
  let ?t = "map (\<lambda>kv. (fst kv, prune_entry (snd kv))) (as_dict E (PObj c a))"
  have dt: "distinct (map fst ?t)"
    using assms(1) by (simp add: o_def)
  have "get_member (make_dict E (PObj c a)) k = map_of (filter (\<lambda>kv. is_value (snd kv)) ?t) k"
    by (simp add: make_dict_def get_member_def Let_def)
  also have "\<dots> = (case map_of ?t k of
                      Some v \<Rightarrow> if is_value v then Some v else None
                    | None \<Rightarrow> None)"
    by (rule map_of_filter_snd [OF dt])
  also have "map_of ?t k = Some (PList (filter is_value l))"
    by (simp add: map_of_map_snd assms(2), simp add: prune_entry_def)
  finally show ?thesis by simp
qed

lemma make_dict_idem: "make_dict E (make_dict E x) = make_dict E x"
  by (cases x) (simp_all add: make_dict_def Let_def)

lemma filter_map_make_dict:
  "map (make_dict E) (filter is_value (map (make_dict E) ys)) =
     filter is_value (map (make_dict E) ys)"
  by (induction ys) (auto simp: make_dict_idem)




lemma dropWhile_rev_stable:
  assumes "dropWhile P xs = xs"
  shows "dropWhile P (rev (dropWhile P (rev xs))) = rev (dropWhile P (rev xs))"
proof (cases "dropWhile P (rev xs) = []")
  case True
  show ?thesis by (simp only: True rev.simps(1) dropWhile.simps(1))
next
  case False
  then obtain x where x: "x \<in> set (rev xs)" "\<not> P x"
    by (auto simp: dropWhile_eq_Nil_conv)
  then have ne: "xs \<noteq> []" by auto
  with assms have h: "\<not> P (hd xs)" by (simp add: dropWhile_eq_self_iff)
  from ne h have "last (dropWhile P (rev xs)) = last (rev xs)"
    by (intro dropWhile_last [of "hd xs"]) auto
  with ne have "hd (rev (dropWhile P (rev xs))) = hd xs"
    using False by (simp add: hd_rev last_rev)
  with h False show ?thesis by (simp add: dropWhile_eq_self_iff)
qed

lemma strip_idem: "strip (strip s) = strip s"
  unfolding strip_def by (simp add: dropWhile_rev_stable)

lemma set_strip: "x \<in> set (strip s) \<Longrightarrow> x \<in> set s"
  by (auto simp: strip_def dest!: set_dropWhileD)

lemma split_aux_no_sep:
  "x \<in> set (split_aux [c] cur s) \<Longrightarrow> c \<notin> set cur \<Longrightarrow> c \<notin> set x"
  by (induction "[c]" cur s arbitrary: x rule: split_aux.induct) (auto split: if_splits)

text \<open>The field name that the resolver extracts is stripped and has no comma.\<close>

lemma field_and_dtype_shape:
  "get_field_and_dtype_from_attribute_field af = Inr (PStr field, dtype) \<Longrightarrow>
   strip field = field \<and> CHR '','' \<notin> set field"
proof (induction af rule: get_field_and_dtype_from_attribute_field.induct)
  case (2 s)
  show ?case
  proof (cases "CHR '','' \<in> set s")
    case True
    with 2 obtain f d where fd: "split_aux '','' [] s = [f, d]" "field = strip f"
      by (auto split: list.splits)
    then have "CHR '','' \<notin> set f"
      using split_aux_no_sep [of f "CHR '',''" "[]" s] by simp
    with fd show ?thesis by (auto simp: strip_idem dest: set_strip)
  next
    case False
    with 2 show ?thesis by (auto simp: strip_idem dest: set_strip)
  qed
qed (auto split: option.splits)

lemma notnull_truth_PStr: "notnull_truth E (PStr s) = Inr True"
  by (simp add: notnull_truth_def)

lemma clear_untagged_tagged: "tagged_dicts (PObj c (clear_untagged attrs))"
  by (induction attrs) (auto simp: tagged_dicts_def clear_untagged_def split: pyval.splits)

lemma map_err_clear:
  "list_all is_obj objs \<Longrightarrow>
   map_err clear_untagged_obj objs =
     Inr (map (\<lambda>obj. case obj of PObj c attrs \<Rightarrow> PObj c (clear_untagged attrs) | _ \<Rightarrow> obj) objs)"
  by (induction objs) (auto simp: is_obj_def clear_untagged_obj_def split: pyval.splits)




lemma foldl_upd_dom:
  "foldl (\<lambda>m r. m(subject_label r \<mapsto> object_label r)) m0 rows s = Some t \<Longrightarrow>
   m0 s = Some t \<or> (\<exists>r \<in> set rows. subject_label r = s \<and> object_label r = t)"
  by (induction rows arbitrary: m0) (fastforce split: if_splits)+

text \<open>
  With a path, every entry of the crosswalk comes from a row whose predicate is
  \<^verbatim>\<open>skos:exactMatch\<close>.
\<close>

lemma make_attribute_map_path_exact:
  "sssom_map_file \<noteq> [] \<Longrightarrow>
   make_attribute_map make_dataframe packaged sssom_map_file s = Some t \<Longrightarrow>
   \<exists>r \<in> set (make_dataframe sssom_map_file).
      subject_label r = s \<and> object_label r = t \<and> predicate_id r = PStr ''skos:exactMatch''"
  by (auto simp: make_attribute_map_def dest!: foldl_upd_dom)

text \<open>
  With the module as it is written, \<^verbatim>\<open>make_object_from_list_item_dict\<close> ends in an exception
  on every input: when nothing else raises before, the name \<^verbatim>\<open>zip_longest\<close> is not found.
\<close>

lemma list_item_dict_never_returns:
  "\<exists>e. snd (make_object_from_list_item_dict module_zip_longest E nmdc_record item) = Inl e"
  by (auto simp: make_object_from_list_item_dict_def module_zip_longest_def Let_def
           split: sum.splits prod.splits option.splits)

text \<open>
  The two branches of \<^verbatim>\<open>get_record_attr\<close> on a specification that references a field:
  the field is in the record with a null value, and the field is not in the record.
\<close>

lemma get_record_attr_null:
  assumes "get_field_and_dtype_from_attribute_field attribute_field = Inr (PStr field, dtype)"
      and "get_member attribute_field ''$const'' = None"
      and "map_of nmdc_record field = Some v" and "checknull v"
  shows "get_record_attr E nmdc_record attribute_field flag = Inr PNone"
proof -
  have nc: "(case attribute_field of PDict d \<Rightarrow> map_of d ''$const'' | _ \<Rightarrow> None) = None"
    using assms(2) by (cases attribute_field) (auto simp: get_member_def)
  have rh: "record_has_field nmdc_record (PStr field) = Inr (field \<in> set (map fst nmdc_record))"
    using field_and_dtype_shape [OF assms(1)] by (simp add: record_has_field_def)
  from assms(3) have "field \<in> set (map fst nmdc_record)"
    by (metis map_of_eq_None_iff option.distinct(1) set_map)
  moreover from assms(4) have "notnull_truth E v = Inr False"
    by (cases v) (simp_all add: notnull_truth_def)
  ultimately show ?thesis
    using assms(3) by (simp add: get_record_attr_def nc assms(1) rh getattr_record_def)
qed

lemma get_record_attr_absent:
  assumes "get_field_and_dtype_from_attribute_field attribute_field = Inr (PStr field, dtype)"
      and "get_member attribute_field ''$const'' = None"
      and "field \<notin> set (map fst nmdc_record)"
  shows "get_record_attr E nmdc_record attribute_field True = coerce_value E (PStr field) dtype"
    and "get_record_attr E nmdc_record attribute_field False = Inr PNone"
proof -
  have nc: "(case attribute_field of PDict d \<Rightarrow> map_of d ''$const'' | _ \<Rightarrow> None) = None"
    using assms(2) by (cases attribute_field) (auto simp: get_member_def)
  have rh: "record_has_field nmdc_record (PStr field) = Inr (field \<in> set (map fst nmdc_record))"
    using field_and_dtype_shape [OF assms(1)] by (simp add: record_has_field_def)
  show "get_record_attr E nmdc_record attribute_field True = coerce_value E (PStr field) dtype"
    and "get_record_attr E nmdc_record attribute_field False = Inr PNone"
    using assms(3) by (simp_all add: get_record_attr_def nc assms(1) rh notnull_truth_def)
qed

text \<open>
  Inside a list element, a sub-field that references a field the record does not have, or a
  field whose value is null, contributes the sequence \<^verbatim>\<open>[None]\<close>.
\<close>

lemma split_record_value_absent:
  assumes "get_field_and_dtype_from_attribute_field field_name = Inr (PStr field, dtype)"
      and "get_member field_name ''$const'' = None"
      and "field \<notin> set (map fst nmdc_record)"
  shows "split_record_value E nmdc_record split_val field_name = Inr [PNone]"
  by (simp add: split_record_value_def get_record_attr_absent(2) [OF assms])

lemma split_record_value_null:
  assumes "get_field_and_dtype_from_attribute_field field_name = Inr (PStr field, dtype)"
      and "get_member field_name ''$const'' = None"
      and "map_of nmdc_record field = Some v" and "checknull v"
  shows "split_record_value E nmdc_record split_val field_name = Inr [PNone]"
  by (simp add: split_record_value_def get_record_attr_null [OF assms])

text \<open>
  \<open>itertools_zip_longest\<close> has one row for every position of the longest sequence, and a
  row holds the element of each sequence at that position, \<^verbatim>\<open>None\<close> where the sequence is
  too short.
\<close>

lemma itertools_zip_longest_rows:
  "length (itertools_zip_longest xss) = foldr max (map length xss) 0"
  "i < foldr max (map length xss) 0 \<Longrightarrow>
     itertools_zip_longest xss ! i = map (\<lambda>xs. if i < length xs then xs ! i else PNone) xss"
  by (simp_all add: itertools_zip_longest_def)

subsection \<open>The date hook on lists of objects and attributes\<close>




lemma getattr_view_None: "attr_view E obj name = None \<Longrightarrow> \<exists>e. py_getattr E obj name = Inl e"
  by (simp add: attr_view_def split: sum.splits)


















subsection \<open>The quantity hook on lists of objects and attributes\<close>












section \<open>Claims\<close>

subsection \<open>C1: the zipped list of nested objects\<close>

text \<open>
  C1. The claim: a list element \<^verbatim>\<open>{id: A, name: B}\<close> on a record with \<^verbatim>\<open>A = "a,b"\<close> and
  \<^verbatim>\<open>B = "x,y"\<close> gives \<^verbatim>\<open>[{id: a, name: x}, {id: b, name: y}]\<close>, a missing field contributes
  \<^verbatim>\<open>[None]\<close>, and sequences of unequal length are padded with \<^verbatim>\<open>None\<close>. In the module as it
  is written the call ends in \<^verbatim>\<open>NameError\<close>, because \<^verbatim>\<open>zip_longest\<close> is never imported;
  were the name bound to \<^verbatim>\<open>itertools.zip_longest\<close>, the results would be the ones the claim
  gives.
\<close>

theorem list_item_dict_zip_example:
  "make_object_from_list_item_dict module_zip_longest example_externals ab_row
     [(''id'', PStr ''A''), (''name'', PStr ''B'')]
   = ([(''id'', PStr ''A''), (''name'', PStr ''B'')], Inl (NameError ''zip_longest''))
   \<and> make_object_from_list_item_dict (Some itertools_zip_longest) example_externals ab_row
     [(''id'', PStr ''A''), (''name'', PStr ''B'')]
   = ([(''id'', PStr ''A''), (''name'', PStr ''B'')],
      Inr [PDict [(''id'', PStr ''a''), (''name'', PStr ''x'')],
           PDict [(''id'', PStr ''b''), (''name'', PStr ''y'')]])
   \<and> make_object_from_list_item_dict (Some itertools_zip_longest) example_externals abc_row
     [(''id'', PStr ''A''), (''name'', PStr ''B''), (''part_of'', PStr ''C'')]
   = ([(''id'', PStr ''A''), (''name'', PStr ''B''), (''part_of'', PStr ''C'')],
      Inr [PDict [(''id'', PStr ''a''), (''name'', PStr ''x''), (''part_of'', PNone)],
           PDict [(''id'', PStr ''b''), (''name'', PNone), (''part_of'', PNone)],
           PDict [(''id'', PStr ''c''), (''name'', PNone), (''part_of'', PNone)]])"
  by code_simp

subsection \<open>C2: which nested mappings count as present\<close>

text \<open>
  C2. The claim: a nested mapping is kept exactly when it has an \<^verbatim>\<open>id\<close> with a value or a
  \<^verbatim>\<open>has_raw_value\<close> with a value. The presence test looks at \<^verbatim>\<open>has_raw_value\<close> only when the
  mapping has no \<^verbatim>\<open>id\<close> key: \<^verbatim>\<open>{id: None, has_raw_value: "x"}\<close> carries a raw value that is
  not null and is rejected, so it is dropped as an element of a list attribute (and the
  emptied list with it) and as an element of the list that is pruned. As the value of an
  attribute the same mapping is kept, as \<^verbatim>\<open>{has_raw_value: "x"}\<close>, because its entries without
  a value are removed before the test.
\<close>

theorem raw_value_hidden_by_id:
  "is_value (PDict [(''id'', PNone), (''has_raw_value'', PStr ''x'')] :: (int \<times> int) pyval) = False
   \<and> map_of [(''id'', PNone), (''has_raw_value'', PStr ''x'' :: (int \<times> int) pyval)]
        ''has_raw_value'' = Some (PStr ''x'')
   \<and> is_value (PStr ''x'' :: (int \<times> int) pyval)
   \<and> \<not> checknull (PStr ''x'' :: (int \<times> int) pyval)
   \<and> make_dict example_externals
        (PObj ''Biosample''
           [(''id'', PStr ''s1''),
            (''depth'', PList [PDict [(''id'', PNone), (''has_raw_value'', PStr ''x'')]])])
      = PDict [(''id'', PStr ''s1'')]
   \<and> make_dict_from_nmdc_obj example_externals
        (PList [PDict [(''id'', PNone), (''has_raw_value'', PStr ''x'')]])
      = PList []
   \<and> make_dict example_externals
        (PObj ''Biosample''
           [(''id'', PStr ''s1''),
            (''depth'', PDict [(''id'', PNone), (''has_raw_value'', PStr ''x'')])])
      = PDict [(''id'', PStr ''s1''), (''depth'', PDict [(''has_raw_value'', PStr ''x'')])]"
  by (simp add: make_dict_def make_dict_from_nmdc_obj_def example_externals_def
                jsonasobj_as_dict_def prune_entry_def)

subsection \<open>C3: null fields and absent fields\<close>

text \<open>
  C3. For every field specification from which the resolver extracts a field name and which is
  no constant (a plain reference, with or without a type, or a \<^verbatim>\<open>$field\<close> wrapper around
  one), \<^verbatim>\<open>get_record_attr\<close> returns \<^verbatim>\<open>None\<close> when the record has the field and its value is
  null, whatever the flag; when the record does not have the field it returns the coerced
  field name if the flag is set and \<^verbatim>\<open>None\<close> if not. Presence is membership of the name in
  the fields of the record.
\<close>

theorem get_record_attr_null_and_absent:
  assumes "get_field_and_dtype_from_attribute_field attribute_field = Inr (PStr field, dtype)"
      and "get_member attribute_field ''$const'' = None"
  shows "(\<forall>v. map_of nmdc_record field = Some v \<and> checknull v \<longrightarrow>
            get_record_attr E nmdc_record attribute_field flag = Inr PNone)
       \<and> (field \<notin> set (map fst nmdc_record) \<longrightarrow>
            get_record_attr E nmdc_record attribute_field True = coerce_value E (PStr field) dtype
          \<and> get_record_attr E nmdc_record attribute_field False = Inr PNone)"
  using get_record_attr_null [OF assms] get_record_attr_absent [OF assms] by blast

text \<open>
  A wrapper around \<^verbatim>\<open>"depth, float"\<close> on a record whose \<^verbatim>\<open>depth\<close> is NaN, and the reference
  \<^verbatim>\<open>"meter"\<close> on a record without that field.
\<close>

theorem get_record_attr_null_and_absent_witness:
  "get_record_attr example_externals [(''depth'', PNaN), (''id'', PStr ''s1'')]
      (PDict [(''$field'', PStr ''depth, float'')]) True = Inr PNone
   \<and> get_record_attr example_externals [(''depth'', PNaN), (''id'', PStr ''s1'')]
      (PStr ''meter'') True = Inr (PStr ''meter'')
   \<and> get_record_attr example_externals [(''depth'', PNaN), (''id'', PStr ''s1'')]
      (PStr ''meter'') False = Inr PNone"
proof -
  have 1: "get_field_and_dtype_from_attribute_field
             (PDict [(''$field'', PStr ''depth, float'')] :: (int \<times> int) pyval)
           = Inr (PStr ''depth'', ''float'')"
    by (simp add: strip_def py_isspace_def)
  have 2: "get_member (PDict [(''$field'', PStr ''depth, float'')] :: (int \<times> int) pyval)
             ''$const'' = None"
    by (simp add: get_member_def)
  have 3: "get_field_and_dtype_from_attribute_field (PStr ''meter'' :: (int \<times> int) pyval)
           = Inr (PStr ''meter'', ''str'')"
    by (simp add: strip_def py_isspace_def)
  have 4: "get_member (PStr ''meter'' :: (int \<times> int) pyval) ''$const'' = None"
    by (simp add: get_member_def)
  show ?thesis
    using get_record_attr_null_and_absent
            [OF 1 2, of "[(''depth'', PNaN), (''id'', PStr ''s1'')]" example_externals True]
          get_record_attr_null_and_absent
            [OF 3 4, of "[(''depth'', PNaN), (''id'', PStr ''s1'')]" example_externals]
    by (simp add: coerce_value_def py_str_def)
qed

subsection \<open>C4: pruning twice\<close>

text \<open>
  C4, as amended. Pruning is idempotent on every input that is not a list. On a list the
  second pruning keeps exactly the pruned elements that pass the presence test, so it is
  idempotent on every list whose pruned elements all pass that test.
\<close>

theorem normalize_twice:
  "((\<forall>xs. x \<noteq> PList xs) \<longrightarrow>
      make_dict_from_nmdc_obj E (make_dict_from_nmdc_obj E x) = make_dict_from_nmdc_obj E x)
   \<and> make_dict_from_nmdc_obj E (make_dict_from_nmdc_obj E (PList os)) =
       PList (filter is_value (map (make_dict E) (filter is_value os)))
   \<and> (list_all is_value (map (make_dict E) (filter is_value os)) \<longrightarrow>
       make_dict_from_nmdc_obj E (make_dict_from_nmdc_obj E (PList os)) =
         make_dict_from_nmdc_obj E (PList os))"
proof -
  have a: "make_dict_from_nmdc_obj E (make_dict_from_nmdc_obj E x) = make_dict_from_nmdc_obj E x"
    if "\<forall>xs. x \<noteq> PList xs"
    using that by (cases x) (simp_all add: make_dict_from_nmdc_obj_def make_dict_def Let_def)
  have b: "make_dict_from_nmdc_obj E (make_dict_from_nmdc_obj E (PList os)) =
       PList (filter is_value (map (make_dict E) (filter is_value os)))"
    by (simp add: make_dict_from_nmdc_obj_def filter_map_make_dict)
  have c: "filter is_value ys = ys" if "list_all is_value ys" for ys :: "'a pyval list"
    using that by (induction ys) auto
  show ?thesis using a b c by (auto simp: make_dict_from_nmdc_obj_def)
qed

text \<open>An object, and a list of an object with an \<^verbatim>\<open>id\<close> and an empty string.\<close>

theorem normalize_twice_witness:
  "make_dict_from_nmdc_obj example_externals
     (make_dict_from_nmdc_obj example_externals
        (PObj ''Study'' [(''name'', PStr ''foo''), (''x'', PNone)]))
   = PDict [(''name'', PStr ''foo'')]
   \<and> make_dict_from_nmdc_obj example_externals
       (make_dict_from_nmdc_obj example_externals
          (PList [PObj ''Study'' [(''id'', PStr ''s1'')], PStr []]))
     = PList [PDict [(''id'', PStr ''s1'')]]"
proof -
  have 1: "\<forall>xs. PObj ''Study'' [(''name'', PStr ''foo''), (''x'', PNone)]
                  \<noteq> (PList xs :: (int \<times> int) pyval)"
    by simp
  have 2: "list_all is_value (map (make_dict example_externals)
             (filter is_value [PObj ''Study'' [(''id'', PStr ''s1'')], PStr []]))"
    by (simp add: make_dict_def example_externals_def jsonasobj_as_dict_def prune_entry_def)
  show ?thesis
    using normalize_twice
            [of "PObj ''Study'' [(''name'', PStr ''foo''), (''x'', PNone)]" example_externals
                "[PObj ''Study'' [(''id'', PStr ''s1'')], PStr []]"] 1 2
    by (simp add: make_dict_from_nmdc_obj_def make_dict_def example_externals_def
                  jsonasobj_as_dict_def prune_entry_def)
qed

text \<open>
  A list of one object that has a name and no \<^verbatim>\<open>id\<close>: the first pruning gives
  \<^verbatim>\<open>[{name: foo}]\<close>, the second the empty list.
\<close>

theorem normalize_twice_counterexample:
  "make_dict_from_nmdc_obj example_externals (PList [PObj ''Study'' [(''name'', PStr ''foo'')]])
     = PList [PDict [(''name'', PStr ''foo'')]]
   \<and> make_dict_from_nmdc_obj example_externals
        (make_dict_from_nmdc_obj example_externals
           (PList [PObj ''Study'' [(''name'', PStr ''foo'')]]))
     = PList []"
  by (simp add: make_dict_from_nmdc_obj_def make_dict_def example_externals_def
                jsonasobj_as_dict_def prune_entry_def)

subsection \<open>C5: the delimiter of a list element\<close>

text \<open>
  C5. The claim: a \<^verbatim>\<open>$split_val\<close> key of the element sets the delimiter of all its sub-fields
  and is no sub-field itself. The code looks for the key \<^verbatim>\<open>$spit_val\<close>: with \<^verbatim>\<open>$split_val\<close>
  the delimiter stays \<^verbatim>\<open>","\<close> and the key is resolved as a sub-field (shown with
  \<^verbatim>\<open>zip_longest\<close> bound; as written the call ends in \<^verbatim>\<open>NameError\<close>), and with \<^verbatim>\<open>$spit_val\<close>
  alone the \<^verbatim>\<open>pop\<close> raises \<^verbatim>\<open>KeyError\<close>.
\<close>

theorem split_val_key_misspelt:
  "make_object_from_list_item_dict module_zip_longest example_externals pipe_row
     [(''$split_val'', PStr ''|''), (''id'', PStr ''A''), (''name'', PStr ''B'')]
   = ([(''$split_val'', PStr ''|''), (''id'', PStr ''A''), (''name'', PStr ''B'')],
      Inl (NameError ''zip_longest''))
   \<and> make_object_from_list_item_dict (Some itertools_zip_longest) example_externals pipe_row
     [(''$split_val'', PStr ''|''), (''id'', PStr ''A''), (''name'', PStr ''B'')]
   = ([(''$split_val'', PStr ''|''), (''id'', PStr ''A''), (''name'', PStr ''B'')],
      Inr [PDict [(''$split_val'', PNone), (''id'', PStr ''a|b''), (''name'', PStr ''x|y'')]])
   \<and> make_object_from_list_item_dict (Some itertools_zip_longest) example_externals pipe_row
     [(''$spit_val'', PStr ''|''), (''id'', PStr ''A''), (''name'', PStr ''B'')]
   = ([(''$spit_val'', PStr ''|''), (''id'', PStr ''A''), (''name'', PStr ''B'')],
      Inl (KeyError ''$split_val''))"
  by code_simp

subsection \<open>C6: the date hook\<close>




subsection \<open>C7: the quantity hook\<close>




subsection \<open>C8: rows loaded into the crosswalk\<close>

text \<open>
  C8. The claim: only rows whose predicate is \<^verbatim>\<open>skos:exactMatch\<close> are loaded, from a given
  path as from the packaged table. Without a path the code loads every row of the packaged
  table: a \<^verbatim>\<open>skos:closeMatch\<close> row is in the crosswalk; the same row read from a path is not.
\<close>

theorem attribute_map_default_unfiltered:
  "make_attribute_map (\<lambda>path. []) [sssom_close] [] (PStr ''depth'') = Some (PStr ''depth'')
   \<and> predicate_id sssom_close \<noteq> PStr ''skos:exactMatch''
   \<and> make_attribute_map (\<lambda>path. [sssom_close]) [] ''gold-to-mixs.sssom.tsv'' (PStr ''depth'')
       = None"
  by (simp add: make_attribute_map_def sssom_close_def)

subsection \<open>C9: the mapping specification across rows\<close>

text \<open>
  C9. The claim: building the object of a row leaves the mapping specification as it was.
  \<^verbatim>\<open>make_object_from_list_item_dict\<close> pops \<^verbatim>\<open>$class_type\<close> from the element of the
  specification: after the first row the element has lost the key (also as written, where
  the call then ends in \<^verbatim>\<open>NameError\<close>), so with \<^verbatim>\<open>zip_longest\<close> bound the first row gives
  \<^verbatim>\<open>Study\<close> objects and the same row on the specification it left behind gives plain
  dictionaries.
\<close>

theorem list_item_dict_changes_spec:
  "make_object_from_list module_zip_longest example_externals ab_row
     [PDict [(''id'', PStr ''A''), (''$class_type'', PStr ''Study'')]]
   = ([PDict [(''id'', PStr ''A'')]], Inl (NameError ''zip_longest''))
   \<and> make_object_from_list (Some itertools_zip_longest) example_externals ab_row
     [PDict [(''id'', PStr ''A''), (''$class_type'', PStr ''Study'')]]
   = ([PDict [(''id'', PStr ''A'')]],
      Inr [PObj ''Study'' [(''id'', PStr ''a'')], PObj ''Study'' [(''id'', PStr ''b'')]])
   \<and> make_object_from_list (Some itertools_zip_longest) example_externals ab_row
     [PDict [(''id'', PStr ''A'')]]
   = ([PDict [(''id'', PStr ''A'')]],
      Inr [PDict [(''id'', PStr ''a'')], PDict [(''id'', PStr ''b'')]])"
  by code_simp

subsection \<open>C10: dictionaries without identifier or raw value\<close>

text \<open>
  C10. Before the first post-transform hook runs, the driver sets to \<^verbatim>\<open>None\<close> every attribute
  of every built object whose value is a dictionary with neither an \<^verbatim>\<open>id\<close> nor a
  \<^verbatim>\<open>has_raw_value\<close> key, whatever else the dictionary holds, and changes nothing else; the
  hooks run on the objects so obtained, in which every dictionary among the attributes has
  one of the two keys.
\<close>

theorem untagged_dicts_cleared:
  assumes "list_all is_obj nmdc_objs"
  shows "\<exists>objs. map_err clear_untagged_obj nmdc_objs = Inr objs
           \<and> list_all tagged_dicts objs
           \<and> length objs = length nmdc_objs
           \<and> (\<forall>i < length objs. \<forall>c attrs. nmdc_objs ! i = PObj c attrs \<longrightarrow>
                 (\<exists>attrs'. objs ! i = PObj c attrs' \<and> map fst attrs' = map fst attrs \<and>
                    (\<forall>j < length attrs.
                       snd (attrs' ! j) =
                         (case snd (attrs ! j) of
                            PDict d \<Rightarrow> if has_key ''id'' d \<or> has_key ''has_raw_value'' d
                                       then PDict d else PNone
                          | v \<Rightarrow> v))))
           \<and> dataframe_to_dict_built E post_transforms nmdc_objs =
               (case run_post_transforms post_transforms objs of
                  (out, Inl e) \<Rightarrow> (out, Inl e)
                | (out, Inr objs') \<Rightarrow> (out, Inr (map (make_dict_from_nmdc_obj E) objs')))"
proof -
  let ?objs = "map (\<lambda>obj. case obj of PObj c attrs \<Rightarrow> PObj c (clear_untagged attrs) | _ \<Rightarrow> obj)
                   nmdc_objs"
  have 1: "map_err clear_untagged_obj nmdc_objs = Inr ?objs"
    by (rule map_err_clear [OF assms])
  have 2: "list_all tagged_dicts ?objs"
    using assms
    by (induction nmdc_objs) (auto simp: is_obj_def clear_untagged_tagged split: pyval.splits)
  have 3: "snd (clear_untagged attrs ! j) =
             (case snd (attrs ! j) of
                PDict d \<Rightarrow> if has_key ''id'' d \<or> has_key ''has_raw_value'' d then PDict d else PNone
              | v \<Rightarrow> v)"
    if "j < length attrs" for attrs :: "(string \<times> 'a pyval) list" and j
    using that by (auto simp: clear_untagged_def split: pyval.splits)
  have 4: "map fst (clear_untagged attrs) = map fst attrs"
    for attrs :: "(string \<times> 'a pyval) list"
    by (induction attrs) (auto simp: clear_untagged_def split: pyval.splits)
  show ?thesis
    apply (rule exI [of _ ?objs])
    using 1 2 3 4 by (auto simp: dataframe_to_dict_built_def)
qed

text \<open>A depth that holds only a unit is cleared.\<close>

theorem untagged_dicts_cleared_witness:
  "list_all is_obj [PObj ''Biosample'' [(''id'', PStr ''s1''),
                                        (''depth'', PDict [(''has_unit'', PStr ''m'')])]
                    :: (int \<times> int) pyval]
   \<and> map_err clear_untagged_obj
        [PObj ''Biosample'' [(''id'', PStr ''s1''), (''depth'', PDict [(''has_unit'', PStr ''m'')])]
         :: (int \<times> int) pyval]
       = Inr [PObj ''Biosample'' [(''id'', PStr ''s1''), (''depth'', PNone)]]"
proof -
  have h: "list_all is_obj [PObj ''Biosample'' [(''id'', PStr ''s1''),
                                                (''depth'', PDict [(''has_unit'', PStr ''m'')])]
                            :: (int \<times> int) pyval]"
    by (simp add: is_obj_def)
  from untagged_dicts_cleared [OF h, of example_externals "[]"] show ?thesis
    using h by (simp add: clear_untagged_obj_def clear_untagged_def has_key_def)
qed

end
